theory Spec2Isabelle
  imports Main "HOL-Library.Word"
begin

section \<open>The slog vocabulary that config.go uses\<close>

text \<open>
  \<^verbatim>\<open>config.go\<close> builds on \<^verbatim>\<open>golang.org/x/exp/slog\<close>, on \<^verbatim>\<open>strings.ToLower\<close> and on
  \<^verbatim>\<open>time.Time.Format\<close>. The two standard-library functions are parameters of the
  model (\<open>ToLower\<close> and \<open>Format\<close>), and the type of instants \<^verbatim>\<open>time.Time\<close> is the
  type variable \<open>'t\<close>. Of slog the model keeps what \<^verbatim>\<open>Configure\<close> touches: the
  keys of the built-in attributes, the level constants, the kinds of a value, and
  the accessor \<^verbatim>\<open>Value.Time\<close>, which panics on a value that holds no time.
\<close>

type_synonym addr = nat

datatype error = Panic

text \<open>
  A \<^verbatim>\<open>slog.Value\<close>, one constructor per \<^verbatim>\<open>slog.Kind\<close>. A value of kind Any or
  LogValuer holds a reference to an object.
\<close>

datatype 't Value =
    AnyValue addr
  | BoolValue bool
  | DurationValue "64 word"
  | Float64Value "64 word"
  | Int64Value "64 word"
  | StringValue string
  | TimeValue 't
  | Uint64Value "64 word"
  | GroupValue "(string \<times> 't Value) list"
  | LogValuerValue addr

record 't Attr =
  Key :: string
  Value :: "'t Value"

text \<open>
  \<^verbatim>\<open>func (v Value) Time() time.Time\<close>: "It panics if v is not a time.Time".
\<close>

fun Value_Time :: "'t Value \<Rightarrow> error + 't" where
  "Value_Time (TimeValue t) = Inr t"
| "Value_Time _ = Inl Panic"

definition TimeKey :: string where "TimeKey = ''time''"
definition LevelKey :: string where "LevelKey = ''level''"
definition SourceKey :: string where "SourceKey = ''source''"

text \<open>\<^verbatim>\<open>type Level int\<close> with its four named levels.\<close>

definition LevelDebug :: int where "LevelDebug = - 4"
definition LevelInfo :: int where "LevelInfo = 0"
definition LevelWarn :: int where "LevelWarn = 4"
definition LevelError :: int where "LevelError = 8"

record 't HandlerOptions =
  Level :: int
  ReplaceAttr :: "string list \<Rightarrow> 't Attr \<Rightarrow> error + 't Attr"
  AddSource :: bool

datatype Writer = Stdout | Stderr

text \<open>
  Modelled from the spec: \<^verbatim>\<open>NewPrettyHandler\<close>, a function of this package that is not in
  config.go. The spec calls what it builds the human-readable colorized writer on the
  stream it is given; the model records that stream and the handler options it is
  built from. A \<open>Handler\<close> stands for slog's process-wide default logger, by the
  handler behind it: slog's own handler before any \<^verbatim>\<open>SetDefault\<close>, the pretty handler, or
  slog's JSON handler.
\<close>

datatype 't Handler =
    DefaultHandler
  | PrettyHandler Writer "'t HandlerOptions"
  | JSONHandler Writer "'t HandlerOptions"

fun handlerOptions :: "'t Handler \<Rightarrow> 't HandlerOptions option" where
  "handlerOptions DefaultHandler = None"
| "handlerOptions (PrettyHandler w ho) = Some ho"
| "handlerOptions (JSONHandler w ho) = Some ho"

section \<open>The time package\<close>

text \<open>\<^verbatim>\<open>time.Duration\<close> is an int64 count of nanoseconds.\<close>

type_synonym Duration = "64 word"

definition Minute :: Duration where "Minute = 60000000000"

definition RFC3339Nano :: string where
  "RFC3339Nano = ''2006-01-02T15:04:05.999999999Z07:00''"

section \<open>Slices, maps and the store\<close>

text \<open>
  A Go slice is a window on a backing array: the array, the offset of the first
  element and the length (the capacity plays no role here, nothing is appended).
  Copying an \<^verbatim>\<open>Options\<close> value copies the window, not the array, so the loop of
  \<^verbatim>\<open>Configure\<close> over \<^verbatim>\<open>opts.SkipHeaders\<close> writes into the caller's array. The nil
  slice has length 0. A map value is a reference, \<open>None\<close> for the nil map.
\<close>

record slice =
  sarr :: addr
  soff :: nat
  slen :: nat

definition nil_slice :: slice where
  "nil_slice = \<lparr>sarr = 0, soff = 0, slen = 0\<rparr>"

type_synonym arrays = "addr \<Rightarrow> string list"

text \<open>The elements a slice shows in a store.\<close>

definition deref :: "arrays \<Rightarrow> slice \<Rightarrow> string list" where
  "deref h s = take (slen s) (drop (soff s) (h (sarr s)))"

text \<open>Two windows that share no array cell.\<close>

definition slices_disjoint :: "slice \<Rightarrow> slice \<Rightarrow> bool" where
  "slices_disjoint s1 s2 =
     (sarr s1 \<noteq> sarr s2 \<or> slen s1 = 0 \<or> slen s2 = 0 \<or>
      soff s1 + slen s1 \<le> soff s2 \<or> soff s2 + slen s2 \<le> soff s1)"

section \<open>Options\<close>

record Options =
  LogLevel :: string
  LevelFieldName :: string
  JSON :: bool
  Concise :: bool
  Tags :: "addr option"
  SkipHeaders :: slice
  QuietDownRoutes :: slice
  QuietDownPeriod :: Duration
  TimeFieldFormat :: string
  TimeFieldName :: string
  SourceFieldName :: string

text \<open>
  The state \<^verbatim>\<open>Configure\<close> works on: the backing arrays of string slices, the
  map objects, the package variable \<^verbatim>\<open>DefaultOptions\<close> and slog's default logger.
\<close>

record 't state =
  arrays :: arrays
  maps :: "addr \<Rightarrow> (string \<rightharpoonup> string)"
  DefaultOptions :: Options
  Default :: "'t Handler"

text \<open>The state at program start: the initialiser of \<^verbatim>\<open>DefaultOptions\<close>.\<close>

definition init_state :: "'t state" where
  "init_state =
     \<lparr>arrays = (\<lambda>_. []),
      maps = (\<lambda>_. Map.empty),
      DefaultOptions =
        \<lparr>LogLevel = ''info'',
         LevelFieldName = ''level'',
         JSON = False,
         Concise = False,
         Tags = None,
         SkipHeaders = nil_slice,
         QuietDownRoutes = nil_slice,
         QuietDownPeriod = 0,
         TimeFieldFormat = RFC3339Nano,
         TimeFieldName = ''timestamp'',
         SourceFieldName = []\<rparr>,
      Default = DefaultHandler\<rparr>"

section \<open>parseLogLevel\<close>

definition parseLogLevel :: "string \<Rightarrow> int" where
  "parseLogLevel level =
     (if level = ''debug'' then LevelDebug
      else if level = ''info'' then LevelInfo
      else if level = ''warn'' then LevelWarn
      else if level = ''error'' then LevelError
      else LevelInfo)"

section \<open>Configure\<close>

text \<open>
  The closure \<^verbatim>\<open>replaceAttrs\<close>, over the variable \<^verbatim>\<open>opts\<close> it captures. It ignores
  its first argument (the open groups) and switches on the key. In the time case
  \<^verbatim>\<open>a.Value.Time()\<close> may panic, which ends the call.
\<close>

definition replaceAttrs ::
  "('t \<Rightarrow> string \<Rightarrow> string) \<Rightarrow> Options \<Rightarrow> string list \<Rightarrow> 't Attr \<Rightarrow> error + 't Attr" where
  "replaceAttrs Format opts groups a =
     (if Key a = LevelKey then Inr (a\<lparr>Key := LevelFieldName opts\<rparr>)
      else if Key a = TimeKey then
        (case Value_Time (Value a) of
           Inl e \<Rightarrow> Inl e
         | Inr t \<Rightarrow>
             Inr (a\<lparr>Key := TimeFieldName opts,
                    Value := StringValue (Format t (TimeFieldFormat opts))\<rparr>))
      else if Key a = SourceKey then
        (if SourceFieldName opts \<noteq> [] then Inr (a\<lparr>Key := SourceFieldName opts\<rparr>)
         else Inr a)
      else Inr a)"

text \<open>
  \<^verbatim>\<open>for i, header := range opts.SkipHeaders { opts.SkipHeaders[i] = strings.ToLower(header) }\<close>
  from index \<open>i\<close> on: each round reads cell \<open>i\<close> of the window and writes its
  lower-casing back into the backing array.
\<close>

function downcase_from :: "(string \<Rightarrow> string) \<Rightarrow> slice \<Rightarrow> nat \<Rightarrow> arrays \<Rightarrow> arrays" where
  "downcase_from ToLower s i h =
     (if i < slen s then
        (let header = h (sarr s) ! (soff s + i)
         in downcase_from ToLower s (Suc i)
              (h(sarr s := (h (sarr s))[soff s + i := ToLower header])))
      else h)"
  by pat_completeness auto
termination
  by (relation "measure (\<lambda>(ToLower, s, i, h). slen s - i)") auto

declare downcase_from.simps [simp del]

definition Configure ::
  "(string \<Rightarrow> string) \<Rightarrow> ('t \<Rightarrow> string \<Rightarrow> string) \<Rightarrow> Options \<Rightarrow> 't state \<Rightarrow> 't state" where
  "Configure ToLower Format opts0 st =
     (let opts1 = (if LevelFieldName opts0 = [] then opts0\<lparr>LevelFieldName := ''level''\<rparr>
                   else opts0);
          opts2 = (if TimeFieldFormat opts1 = [] then opts1\<lparr>TimeFieldFormat := RFC3339Nano\<rparr>
                   else opts1);
          opts3 = (if TimeFieldName opts2 = [] then opts2\<lparr>TimeFieldName := ''timestamp''\<rparr>
                   else opts2);
          opts = (if 0 < slen (QuietDownRoutes opts3) then
                    (if QuietDownPeriod opts3 = 0 then opts3\<lparr>QuietDownPeriod := 5 * Minute\<rparr>
                     else opts3)
                  else opts3);
          h = downcase_from ToLower (SkipHeaders opts) 0 (arrays st);
          addSource = (if SourceFieldName opts \<noteq> [] then True else False);
          handlerOpts = \<lparr>Level = parseLogLevel (LogLevel opts),
                         ReplaceAttr = replaceAttrs Format opts,
                         AddSource = addSource\<rparr>
      in st\<lparr>arrays := h,
            DefaultOptions := opts,
            Default := (if \<not> JSON opts then PrettyHandler Stdout handlerOpts
                        else JSONHandler Stderr handlerOpts)\<rparr>)"

section \<open>Concrete inputs\<close>

text \<open>
  On a string of ASCII bytes \<^verbatim>\<open>strings.ToLower\<close> adds \<^verbatim>\<open>'a' - 'A'\<close> to each byte between
  \<^verbatim>\<open>'A'\<close> and \<^verbatim>\<open>'Z'\<close>. This instance of the parameter \<open>ToLower\<close> runs the model on
  concrete header names.
\<close>

definition lower_byte :: "char \<Rightarrow> char" where
  "lower_byte c =
     (let n = (of_char c :: nat) in if 65 \<le> n \<and> n \<le> 90 then char_of (n + 32) else c)"

definition ascii_ToLower :: "string \<Rightarrow> string" where
  "ascii_ToLower s = map lower_byte s"

text \<open>The zero value \<^verbatim>\<open>Options{}\<close>.\<close>

definition zero_Options :: Options where
  "zero_Options =
     \<lparr>LogLevel = [], LevelFieldName = [], JSON = False, Concise = False, Tags = None,
      SkipHeaders = nil_slice, QuietDownRoutes = nil_slice, QuietDownPeriod = 0,
      TimeFieldFormat = [], TimeFieldName = [], SourceFieldName = []\<rparr>"

section \<open>The loop over SkipHeaders\<close>

lemma downcase_from_step:
  "i < slen s \<Longrightarrow> downcase_from ToLower s i h =
     downcase_from ToLower s (Suc i) (h(sarr s := (h (sarr s))[soff s + i := ToLower (h (sarr s) ! (soff s + i))]))"
  by (subst downcase_from.simps) (simp add: Let_def)

lemma downcase_from_done: "\<not> i < slen s \<Longrightarrow> downcase_from ToLower s i h = h"
  by (subst downcase_from.simps) simp

lemma downcase_from_other: "a \<noteq> sarr s \<Longrightarrow> downcase_from ToLower s i h a = h a"
proof (induction ToLower s i h rule: downcase_from.induct)
  case (1 ToLower s i h)
  show ?case
  proof (cases "i < slen s")
    case True
    with "1" show ?thesis by (simp add: downcase_from_step fun_upd_def)
  next
    case False
    then show ?thesis by (simp add: downcase_from_done)
  qed
qed

lemma length_downcase_from: "length (downcase_from ToLower s i h a) = length (h a)"
proof (induction ToLower s i h rule: downcase_from.induct)
  case (1 ToLower s i h)
  show ?case
  proof (cases "i < slen s")
    case True
    with "1" show ?thesis by (simp add: downcase_from_step fun_upd_def)
  next
    case False
    then show ?thesis by (simp add: downcase_from_done)
  qed
qed

lemma nth_downcase_from:
  "j < length (h (sarr s)) \<Longrightarrow>
   downcase_from ToLower s i h (sarr s) ! j =
     (if soff s + i \<le> j \<and> j < soff s + slen s then ToLower (h (sarr s) ! j) else h (sarr s) ! j)"
proof (induction ToLower s i h rule: downcase_from.induct)
  case (1 ToLower s i h)
  show ?case
  proof (cases "i < slen s")
    case True
    let ?h = "h(sarr s := (h (sarr s))[soff s + i := ToLower (h (sarr s) ! (soff s + i))])"
    have "j < length (?h (sarr s))" using "1.prems" by simp
    with "1.IH" [OF True refl]
    have IH: "downcase_from ToLower s (Suc i) ?h (sarr s) ! j =
        (if soff s + Suc i \<le> j \<and> j < soff s + slen s then ToLower (?h (sarr s) ! j)
         else ?h (sarr s) ! j)"
      by (simp add: fun_upd_def)
    show ?thesis
    proof (cases "j = soff s + i")
      case True
      with IH \<open>i < slen s\<close> "1.prems" show ?thesis
        by (simp add: downcase_from_step)
    next
      case False
      with IH \<open>i < slen s\<close> "1.prems" show ?thesis
        by (auto simp: downcase_from_step)
    qed
  next
    case False
    then show ?thesis by (auto simp: downcase_from_done)
  qed
qed

lemma deref_downcase_from:
  "deref (downcase_from ToLower s 0 h) s = map ToLower (deref h s)"
  unfolding deref_def
  by (rule nth_equalityI) (auto simp: length_downcase_from nth_downcase_from)

lemma deref_downcase_from_disjoint:
  "slices_disjoint s r \<Longrightarrow> deref (downcase_from ToLower s 0 h) r = deref h r"
proof (cases "sarr r = sarr s")
  case False
  then show ?thesis by (simp add: deref_def downcase_from_other)
next
  case True
  assume "slices_disjoint s r"
  with True show ?thesis
  unfolding deref_def
  by (intro nth_equalityI) (auto simp: length_downcase_from nth_downcase_from slices_disjoint_def downcase_from_done)
qed

text \<open>
  What the loop leaves in a window depends only on what the window showed before.
\<close>

lemma deref_downcase_from_cong:
  assumes "deref h' r = deref h r"
  shows "deref (downcase_from ToLower s 0 h') r = deref (downcase_from ToLower s 0 h) r"
proof (cases "sarr r = sarr s")
  case False
  with assms show ?thesis by (simp add: deref_def downcase_from_other)
next
  case True
  let ?a = "sarr s"
  from assms True have eq: "take (slen r) (drop (soff r) (h' ?a)) = take (slen r) (drop (soff r) (h ?a))"
    by (simp add: deref_def)
  have len: "min (slen r) (length (h' ?a) - soff r) = min (slen r) (length (h ?a) - soff r)"
    using arg_cong [where f = length, OF eq] by (simp add: min.commute)
  have cell: "h' ?a ! (soff r + i) = h ?a ! (soff r + i)"
    if "i < slen r" "i < length (h' ?a) - soff r" for i
  proof -
    from that len have "i < length (h ?a) - soff r" by simp
    with that arg_cong [where f = "\<lambda>xs. xs ! i", OF eq] show ?thesis by simp
  qed
  show ?thesis
    unfolding deref_def True
  proof (rule nth_equalityI)
    show "length (take (slen r) (drop (soff r) (downcase_from ToLower s 0 h' ?a))) =
          length (take (slen r) (drop (soff r) (downcase_from ToLower s 0 h ?a)))"
      using len by (simp add: length_downcase_from min.commute)
  next
    fix i
    assume "i < length (take (slen r) (drop (soff r) (downcase_from ToLower s 0 h' ?a)))"
    then have i: "i < slen r" "i < length (h' ?a) - soff r"
      by (simp_all add: length_downcase_from)
    with len have i': "i < length (h ?a) - soff r" by simp
    from i i' cell [OF i]
    show "take (slen r) (drop (soff r) (downcase_from ToLower s 0 h' ?a)) ! i =
          take (slen r) (drop (soff r) (downcase_from ToLower s 0 h ?a)) ! i"
      by (simp add: length_downcase_from nth_downcase_from)
  qed
qed

section \<open>What Configure leaves in the state\<close>

lemma DefaultOptions_Configure_fields:
  "LogLevel (DefaultOptions (Configure ToLower Format opts st)) = LogLevel opts"
  "LevelFieldName (DefaultOptions (Configure ToLower Format opts st)) =
     (if LevelFieldName opts = [] then ''level'' else LevelFieldName opts)"
  "JSON (DefaultOptions (Configure ToLower Format opts st)) = JSON opts"
  "Concise (DefaultOptions (Configure ToLower Format opts st)) = Concise opts"
  "Tags (DefaultOptions (Configure ToLower Format opts st)) = Tags opts"
  "SkipHeaders (DefaultOptions (Configure ToLower Format opts st)) = SkipHeaders opts"
  "QuietDownRoutes (DefaultOptions (Configure ToLower Format opts st)) = QuietDownRoutes opts"
  "QuietDownPeriod (DefaultOptions (Configure ToLower Format opts st)) =
     (if 0 < slen (QuietDownRoutes opts) \<and> QuietDownPeriod opts = 0 then 5 * Minute
      else QuietDownPeriod opts)"
  "TimeFieldFormat (DefaultOptions (Configure ToLower Format opts st)) =
     (if TimeFieldFormat opts = [] then RFC3339Nano else TimeFieldFormat opts)"
  "TimeFieldName (DefaultOptions (Configure ToLower Format opts st)) =
     (if TimeFieldName opts = [] then ''timestamp'' else TimeFieldName opts)"
  "SourceFieldName (DefaultOptions (Configure ToLower Format opts st)) = SourceFieldName opts"
  by (simp_all add: Configure_def Let_def)

lemma DefaultOptions_Configure_state:
  "DefaultOptions (Configure ToLower Format opts st) = DefaultOptions (Configure ToLower Format opts st0)"
  by (simp add: Configure_def Let_def)

lemma Default_Configure:
  "Default (Configure ToLower Format opts st) =
     (let ho = \<lparr>Level = parseLogLevel (LogLevel opts),
                ReplaceAttr = replaceAttrs Format (DefaultOptions (Configure ToLower Format opts st)),
                AddSource = (SourceFieldName opts \<noteq> [])\<rparr>
      in if JSON opts then JSONHandler Stderr ho else PrettyHandler Stdout ho)"
  by (simp add: Configure_def Let_def)

lemma arrays_Configure:
  "arrays (Configure ToLower Format opts st) = downcase_from ToLower (SkipHeaders opts) 0 (arrays st)"
  by (simp add: Configure_def Let_def)

lemma maps_Configure: "maps (Configure ToLower Format opts st) = maps st"
  by (simp add: Configure_def Let_def)

lemma Default_Configure_state:
  "Default (Configure ToLower Format opts st) = Default (Configure ToLower Format opts st0)"
  by (simp add: Configure_def Let_def)

lemma handlerOptions_Configure:
  "handlerOptions (Default (Configure ToLower Format opts st)) =
     Some \<lparr>Level = parseLogLevel (LogLevel opts),
           ReplaceAttr = replaceAttrs Format (DefaultOptions (Configure ToLower Format opts st)),
           AddSource = (SourceFieldName opts \<noteq> [])\<rparr>"
  by (simp add: Default_Configure Let_def)

text \<open>The ASCII instance of \<open>ToLower\<close> on three strings.\<close>

lemma ascii_ToLower_examples:
  "ascii_ToLower ''Authorization'' = ''authorization''"
  "ascii_ToLower ''X-Api-Key'' = ''x-api-key''"
  "ascii_ToLower ''/Health'' = ''/health''"
  by code_simp+

section \<open>The attribute-rewrite hook\<close>

text \<open>
  Claim C1. The hook that \<^verbatim>\<open>Configure\<close> installs recognises the level and the time
  attribute by their keys \<^verbatim>\<open>slog.LevelKey\<close> and \<^verbatim>\<open>slog.TimeKey\<close>. Whatever the options
  and the open groups, it returns a level attribute under the published
  \<^verbatim>\<open>LevelFieldName\<close> with its value untouched, and a time attribute holding the instant
  \<open>t\<close> under the published \<^verbatim>\<open>TimeFieldName\<close>, its value the string
  \<open>Format t\<close> of the published \<^verbatim>\<open>TimeFieldFormat\<close>.
\<close>

theorem replaceAttrs_level_time:
  fixes st :: "'t state" and ToLower Format opts
  defines "st' \<equiv> Configure ToLower Format opts st"
  shows "\<exists>ho. handlerOptions (Default st') = Some ho \<and>
    (\<forall>groups a. Key a = LevelKey \<longrightarrow>
       ReplaceAttr ho groups a = Inr (a\<lparr>Key := LevelFieldName (DefaultOptions st')\<rparr>)) \<and>
    (\<forall>groups a t. Key a = TimeKey \<and> Value a = TimeValue t \<longrightarrow>
       ReplaceAttr ho groups a =
         Inr (a\<lparr>Key := TimeFieldName (DefaultOptions st'),
                Value := StringValue (Format t (TimeFieldFormat (DefaultOptions st')))\<rparr>))"
  unfolding st'_def handlerOptions_Configure
  by (simp add: replaceAttrs_def LevelKey_def TimeKey_def)

text \<open>
  With \<^verbatim>\<open>Options{LevelFieldName: "severity", TimeFieldFormat: "15:04"}\<close> the level
  attribute comes back as \<^verbatim>\<open>severity\<close> and the time attribute as \<^verbatim>\<open>timestamp\<close>, formatted;
  instants are strings here and the formatter shows both its arguments.
\<close>

theorem replaceAttrs_level_time_witness:
  "\<exists>ho. handlerOptions (Default (Configure ascii_ToLower (\<lambda>t layout. t @ '' as '' @ layout)
           (zero_Options\<lparr>LevelFieldName := ''severity'', TimeFieldFormat := ''15:04''\<rparr>)
           init_state)) = Some ho \<and>
     ReplaceAttr ho [] \<lparr>Key = ''level'', Value = AnyValue 0\<rparr> =
       Inr \<lparr>Key = ''severity'', Value = AnyValue 0\<rparr> \<and>
     ReplaceAttr ho [''req''] \<lparr>Key = ''time'', Value = TimeValue ''noon''\<rparr> =
       Inr \<lparr>Key = ''timestamp'', Value = StringValue ''noon as 15:04''\<rparr>"
proof -
  let ?opts = "zero_Options\<lparr>LevelFieldName := ''severity'', TimeFieldFormat := ''15:04''\<rparr>"
  let ?fmt = "\<lambda>t layout. t @ '' as '' @ layout"
  from replaceAttrs_level_time [of ascii_ToLower ?fmt ?opts init_state]
  obtain ho where ho: "handlerOptions (Default (Configure ascii_ToLower ?fmt ?opts init_state)) = Some ho"
    and lv: "\<And>groups a. Key a = LevelKey \<Longrightarrow> ReplaceAttr ho groups a =
        Inr (a\<lparr>Key := LevelFieldName (DefaultOptions (Configure ascii_ToLower ?fmt ?opts init_state))\<rparr>)"
    and tm: "\<And>groups a t. Key a = TimeKey \<Longrightarrow> Value a = TimeValue t \<Longrightarrow> ReplaceAttr ho groups a =
        Inr (a\<lparr>Key := TimeFieldName (DefaultOptions (Configure ascii_ToLower ?fmt ?opts init_state)),
               Value := StringValue (?fmt t (TimeFieldFormat (DefaultOptions (Configure ascii_ToLower ?fmt ?opts init_state))))\<rparr>)"
    by blast
  have "ReplaceAttr ho [] \<lparr>Key = ''level'', Value = AnyValue 0\<rparr> =
       Inr \<lparr>Key = ''severity'', Value = AnyValue 0\<rparr>"
    by (subst lv) (simp_all add: LevelKey_def DefaultOptions_Configure_fields zero_Options_def)
  moreover have "ReplaceAttr ho [''req''] \<lparr>Key = ''time'', Value = TimeValue ''noon''\<rparr> =
       Inr \<lparr>Key = ''timestamp'', Value = StringValue ''noon as 15:04''\<rparr>"
    by (subst tm [where t = "''noon''"]) (simp_all add: TimeKey_def DefaultOptions_Configure_fields zero_Options_def)
  ultimately show ?thesis using ho by blast
qed

text \<open>
  Claim C2 says that an attribute which is not the level, time or source attribute
  comes back unchanged, so that an ordinary user attribute is never renamed or
  reformatted. The hook does not keep to it: it switches on the key alone and looks
  neither at the open groups nor at where the attribute comes from. A user attribute
  \<^verbatim>\<open>time\<close> inside the group \<^verbatim>\<open>req\<close>, as \<^verbatim>\<open>slog.Group("req", slog.Time("time", t))\<close> logs
  it, comes back under the published \<^verbatim>\<open>TimeFieldName\<close> with its instant replaced by a
  formatted string, under every options value.
\<close>

theorem replaceAttrs_rewrites_user_attribute:
  fixes st :: "'t state" and ToLower Format opts and t :: 't
  defines "st' \<equiv> Configure ToLower Format opts st"
  shows "\<exists>ho. handlerOptions (Default st') = Some ho \<and>
    ReplaceAttr ho [''req''] \<lparr>Key = ''time'', Value = TimeValue t\<rparr> =
      Inr \<lparr>Key = TimeFieldName (DefaultOptions st'),
           Value = StringValue (Format t (TimeFieldFormat (DefaultOptions st')))\<rparr> \<and>
    ReplaceAttr ho [''req''] \<lparr>Key = ''time'', Value = TimeValue t\<rparr> \<noteq>
      Inr \<lparr>Key = ''time'', Value = TimeValue t\<rparr>"
  unfolding st'_def handlerOptions_Configure
  by (simp add: replaceAttrs_def LevelKey_def TimeKey_def)

text \<open>
  The same happens to a user attribute \<^verbatim>\<open>level\<close>: with
  \<^verbatim>\<open>Options{LevelFieldName: "severity"}\<close> it is renamed to \<^verbatim>\<open>severity\<close>.
\<close>

lemma replaceAttrs_renames_user_level:
  "\<exists>ho. handlerOptions (Default (Configure ascii_ToLower (\<lambda>t layout. t @ '' as '' @ layout)
           (zero_Options\<lparr>LevelFieldName := ''severity''\<rparr>) init_state)) = Some ho \<and>
     ReplaceAttr ho [''req''] \<lparr>Key = ''level'', Value = StringValue ''high''\<rparr> =
       Inr \<lparr>Key = ''severity'', Value = StringValue ''high''\<rparr>"
  unfolding handlerOptions_Configure
  by (simp add: replaceAttrs_def LevelKey_def DefaultOptions_Configure_fields zero_Options_def)

text \<open>
  What does hold is the statement by keys: an attribute whose key is none of
  \<^verbatim>\<open>level\<close>, \<^verbatim>\<open>time\<close> and \<^verbatim>\<open>source\<close> comes back as it went in, whatever its groups and
  the kind of its value.
\<close>

lemma replaceAttrs_unreserved_key:
  fixes st :: "'t state" and ToLower Format opts
  shows "\<exists>ho. handlerOptions (Default (Configure ToLower Format opts st)) = Some ho \<and>
    (\<forall>groups a. Key a \<notin> {LevelKey, TimeKey, SourceKey} \<longrightarrow> ReplaceAttr ho groups a = Inr a)"
  unfolding handlerOptions_Configure
  by (simp add: replaceAttrs_def)

text \<open>
  Claim C3 says the hook returns for every attribute, of any key and any kind of
  value. It does not: on the key \<^verbatim>\<open>time\<close> the hook calls \<^verbatim>\<open>a.Value.Time()\<close> without
  looking at the kind, so an attribute \<^verbatim>\<open>"time"\<close> that carries the string \<^verbatim>\<open>"noon"\<close>
  makes it panic, under every options value.
\<close>

theorem replaceAttrs_panics_on_time_key:
  fixes st :: "'t state" and ToLower Format opts
  shows "\<exists>ho. handlerOptions (Default (Configure ToLower Format opts st)) = Some ho \<and>
    ReplaceAttr ho [] \<lparr>Key = ''time'', Value = StringValue ''noon''\<rparr> = Inl Panic"
  unfolding handlerOptions_Configure
  by (simp add: replaceAttrs_def LevelKey_def TimeKey_def)

text \<open>
  That is the only way the hook fails: it panics exactly on the attributes keyed
  \<^verbatim>\<open>time\<close> whose value is not a time, and returns on all others.
\<close>

lemma replaceAttrs_panics_iff:
  "replaceAttrs Format opts groups a = Inl Panic \<longleftrightarrow>
     Key a = TimeKey \<and> (\<forall>t. Value a \<noteq> TimeValue t)"
  by (cases "Value a") (auto simp: replaceAttrs_def LevelKey_def TimeKey_def)

section \<open>Normalisation of the options\<close>

text \<open>
  Claim C4. When the window \<^verbatim>\<open>QuietDownRoutes\<close> has at least one element and
  \<^verbatim>\<open>QuietDownPeriod\<close> is 0, \<^verbatim>\<open>Configure\<close> publishes the period \<^verbatim>\<open>5 * time.Minute\<close>; when the
  window is empty, it publishes the period it was given.
\<close>

theorem quietDownPeriod_default:
  fixes st :: "'t state" and ToLower Format opts
  defines "st' \<equiv> Configure ToLower Format opts st"
  shows "(0 < slen (QuietDownRoutes opts) \<and> QuietDownPeriod opts = 0 \<longrightarrow>
            QuietDownPeriod (DefaultOptions st') = 5 * Minute) \<and>
         (slen (QuietDownRoutes opts) = 0 \<longrightarrow>
            QuietDownPeriod (DefaultOptions st') = QuietDownPeriod opts)"
  unfolding st'_def by (simp add: DefaultOptions_Configure_fields)

text \<open>
  One route and no period give 300000000000 nanoseconds; no route and a period of 7
  nanoseconds give 7.
\<close>

theorem quietDownPeriod_default_witness:
  fixes st :: "string state" and fmt :: "string \<Rightarrow> string \<Rightarrow> string"
  defines "fmt \<equiv> \<lambda>t layout. t @ '' as '' @ layout"
    and "st \<equiv> init_state\<lparr>arrays := (\<lambda>_. [])(1 := [''/health''])\<rparr>"
  shows "QuietDownPeriod (DefaultOptions (Configure ascii_ToLower fmt
            (zero_Options\<lparr>QuietDownRoutes := \<lparr>sarr = 1, soff = 0, slen = 1\<rparr>\<rparr>) st)) = 300000000000 \<and>
         QuietDownPeriod (DefaultOptions (Configure ascii_ToLower fmt
            (zero_Options\<lparr>QuietDownPeriod := 7\<rparr>) st)) = 7"
  using quietDownPeriod_default [of "zero_Options\<lparr>QuietDownRoutes := \<lparr>sarr = 1, soff = 0, slen = 1\<rparr>\<rparr>"
      ascii_ToLower fmt st]
    quietDownPeriod_default [of "zero_Options\<lparr>QuietDownPeriod := 7\<rparr>" ascii_ToLower fmt st]
  by (simp add: zero_Options_def nil_slice_def Minute_def)

text \<open>
  Claim C5. An empty \<^verbatim>\<open>LevelFieldName\<close> is published as \<^verbatim>\<open>level\<close>, an empty
  \<^verbatim>\<open>TimeFieldName\<close> as \<^verbatim>\<open>timestamp\<close>, an empty \<^verbatim>\<open>TimeFieldFormat\<close> as
  \<^verbatim>\<open>time.RFC3339Nano\<close>; a name or format that is not empty is published as given.
\<close>

theorem field_defaults:
  fixes st :: "'t state" and ToLower Format opts
  defines "published \<equiv> DefaultOptions (Configure ToLower Format opts st)"
  shows "(LevelFieldName opts = [] \<longrightarrow> LevelFieldName published = ''level'') \<and>
         (LevelFieldName opts \<noteq> [] \<longrightarrow> LevelFieldName published = LevelFieldName opts) \<and>
         (TimeFieldName opts = [] \<longrightarrow> TimeFieldName published = ''timestamp'') \<and>
         (TimeFieldName opts \<noteq> [] \<longrightarrow> TimeFieldName published = TimeFieldName opts) \<and>
         (TimeFieldFormat opts = [] \<longrightarrow> TimeFieldFormat published = RFC3339Nano) \<and>
         (TimeFieldFormat opts \<noteq> [] \<longrightarrow> TimeFieldFormat published = TimeFieldFormat opts)"
  unfolding published_def by (simp add: DefaultOptions_Configure_fields)

text \<open>The zero options get the three defaults; three chosen values are kept.\<close>

theorem field_defaults_witness:
  fixes fmt :: "string \<Rightarrow> string \<Rightarrow> string"
  defines "fmt \<equiv> \<lambda>t layout. t @ '' as '' @ layout"
  defines "p1 \<equiv> DefaultOptions (Configure ascii_ToLower fmt zero_Options init_state)"
    and "p2 \<equiv> DefaultOptions (Configure ascii_ToLower fmt
          (zero_Options\<lparr>LevelFieldName := ''severity'', TimeFieldName := ''ts'',
                         TimeFieldFormat := ''15:04''\<rparr>) init_state)"
  shows "LevelFieldName p1 = ''level'' \<and> TimeFieldName p1 = ''timestamp'' \<and>
         TimeFieldFormat p1 = ''2006-01-02T15:04:05.999999999Z07:00'' \<and>
         LevelFieldName p2 = ''severity'' \<and> TimeFieldName p2 = ''ts'' \<and>
         TimeFieldFormat p2 = ''15:04''"
  unfolding p1_def p2_def
  using field_defaults [of zero_Options ascii_ToLower fmt init_state]
    field_defaults [of "zero_Options\<lparr>LevelFieldName := ''severity'', TimeFieldName := ''ts'',
                         TimeFieldFormat := ''15:04''\<rparr>" ascii_ToLower fmt init_state]
  by (simp add: zero_Options_def RFC3339Nano_def)

text \<open>
  Claim C6. The level that \<^verbatim>\<open>Configure\<close> hands to the handler is
  \<^verbatim>\<open>parseLogLevel(opts.LogLevel)\<close>, and \<^verbatim>\<open>parseLogLevel\<close> maps \<^verbatim>\<open>debug\<close>, \<^verbatim>\<open>info\<close>, \<^verbatim>\<open>warn\<close>
  and \<^verbatim>\<open>error\<close> to their slog levels and every other string to \<^verbatim>\<open>slog.LevelInfo\<close>. It is a
  total function: no string makes it fail.
\<close>

theorem parseLogLevel_total:
  fixes st :: "'t state" and ToLower Format opts
  shows "(\<exists>ho. handlerOptions (Default (Configure ToLower Format opts st)) = Some ho \<and>
            Level ho = parseLogLevel (LogLevel opts)) \<and>
         parseLogLevel ''debug'' = LevelDebug \<and>
         parseLogLevel ''info'' = LevelInfo \<and>
         parseLogLevel ''warn'' = LevelWarn \<and>
         parseLogLevel ''error'' = LevelError \<and>
         (\<forall>level. level \<notin> {''debug'', ''info'', ''warn'', ''error''} \<longrightarrow>
            parseLogLevel level = LevelInfo)"
  unfolding handlerOptions_Configure by (simp add: parseLogLevel_def)

text \<open>
  The match is exact, so \<^verbatim>\<open>WARN\<close> in capitals is one of the other strings and
  configures the level 0 (info).
\<close>

theorem parseLogLevel_total_witness:
  fixes fmt :: "string \<Rightarrow> string \<Rightarrow> string"
  defines "fmt \<equiv> \<lambda>t layout. t @ '' as '' @ layout"
  shows "(\<exists>ho. handlerOptions (Default (Configure ascii_ToLower fmt
                  (zero_Options\<lparr>LogLevel := ''WARN''\<rparr>) init_state)) = Some ho \<and> Level ho = 0) \<and>
         parseLogLevel ''verbose'' = 0 \<and> parseLogLevel [] = 0 \<and>
         parseLogLevel ''debug'' = - 4 \<and> parseLogLevel ''warn'' = 4 \<and>
         parseLogLevel ''error'' = 8"
proof -
  let ?opts = "zero_Options\<lparr>LogLevel := ''WARN''\<rparr>"
  from parseLogLevel_total [where ToLower = ascii_ToLower and Format = fmt and opts = ?opts
      and st = init_state]
  obtain ho where ho: "handlerOptions (Default (Configure ascii_ToLower fmt ?opts init_state)) = Some ho"
      "Level ho = parseLogLevel (LogLevel ?opts)"
    and known: "parseLogLevel ''debug'' = LevelDebug" "parseLogLevel ''warn'' = LevelWarn"
      "parseLogLevel ''error'' = LevelError"
    and other: "\<And>level. level \<notin> {''debug'', ''info'', ''warn'', ''error''} \<Longrightarrow>
      parseLogLevel level = LevelInfo"
    by blast
  have "parseLogLevel ''WARN'' = LevelInfo" by (rule other) simp
  with ho have "Level ho = 0" by (simp add: LevelInfo_def)
  moreover have "parseLogLevel ''verbose'' = LevelInfo" by (rule other) simp
  moreover have "parseLogLevel [] = LevelInfo" by (rule other) simp
  ultimately show ?thesis
    using ho(1) known by (simp add: LevelInfo_def LevelDebug_def LevelWarn_def LevelError_def)
qed

text \<open>
  Claim C7. \<^verbatim>\<open>Configure\<close> publishes the window \<^verbatim>\<open>SkipHeaders\<close> it was given (same array,
  same offset, same length), and afterwards the window shows, entry by entry and in
  the same order, the lower-casing of what it showed before.
\<close>

theorem skipHeaders_lowercased:
  fixes st :: "'t state" and ToLower Format opts
  defines "st' \<equiv> Configure ToLower Format opts st"
  shows "SkipHeaders (DefaultOptions st') = SkipHeaders opts \<and>
         deref (arrays st') (SkipHeaders (DefaultOptions st')) =
           map ToLower (deref (arrays st) (SkipHeaders opts)) \<and>
         length (deref (arrays st') (SkipHeaders (DefaultOptions st'))) =
           length (deref (arrays st) (SkipHeaders opts))"
  unfolding st'_def
  by (simp add: DefaultOptions_Configure_fields arrays_Configure deref_downcase_from)

text \<open>
  A window on the two middle cells of a four-cell array: the window shows the two
  lower-cased names, and the loop has written exactly those two cells of the array.
\<close>

theorem skipHeaders_lowercased_witness:
  fixes st :: "string state" and fmt :: "string \<Rightarrow> string \<Rightarrow> string"
  defines "fmt \<equiv> \<lambda>t layout. t @ '' as '' @ layout"
    and "st \<equiv> init_state\<lparr>arrays := (\<lambda>_. [])(1 := [''Host'', ''Authorization'', ''X-Api-Key'', ''Accept''])\<rparr>"
  defines "st' \<equiv> Configure ascii_ToLower fmt
            (zero_Options\<lparr>SkipHeaders := \<lparr>sarr = 1, soff = 1, slen = 2\<rparr>\<rparr>) st"
  shows "deref (arrays st') (SkipHeaders (DefaultOptions st')) = [''authorization'', ''x-api-key''] \<and>
         arrays st' 1 = [''Host'', ''authorization'', ''x-api-key'', ''Accept'']"
proof -
  let ?opts = "zero_Options\<lparr>SkipHeaders := \<lparr>sarr = 1, soff = 1, slen = 2\<rparr>\<rparr>"
  have "deref (arrays st') (SkipHeaders (DefaultOptions st')) =
      map ascii_ToLower (deref (arrays st) (SkipHeaders ?opts))"
    unfolding st'_def
    using skipHeaders_lowercased [where ToLower = ascii_ToLower and Format = fmt and st = st
        and opts = ?opts]
    by blast
  also have "deref (arrays st) (SkipHeaders ?opts) = [''Authorization'', ''X-Api-Key'']"
    by (simp add: st_def deref_def)
  finally have "deref (arrays st') (SkipHeaders (DefaultOptions st')) =
      [''authorization'', ''x-api-key'']"
    by (simp add: ascii_ToLower_examples)
  moreover have "arrays st' 1 = [''Host'', ''authorization'', ''x-api-key'', ''Accept'']"
    unfolding st'_def st_def
    by (simp add: arrays_Configure downcase_from.simps [of _ _ 0] downcase_from.simps [of _ _ "Suc 0"]
        downcase_from.simps [of _ _ "Suc (Suc 0)"] ascii_ToLower_examples)
  ultimately show ?thesis by simp
qed

section \<open>The output backend\<close>

text \<open>
  Claim C8. With \<^verbatim>\<open>JSON\<close> set, \<^verbatim>\<open>Configure\<close> makes the JSON handler on \<^verbatim>\<open>os.Stderr\<close>
  slog's default; with \<^verbatim>\<open>JSON\<close> unset, the pretty handler on \<^verbatim>\<open>os.Stdout\<close>. Both
  are built from the same handler options.
\<close>

theorem backend_selection:
  fixes st :: "'t state" and ToLower Format opts
  defines "st' \<equiv> Configure ToLower Format opts st"
  shows "\<exists>ho. handlerOptions (Default st') = Some ho \<and>
           (JSON opts \<longrightarrow> Default st' = JSONHandler Stderr ho) \<and>
           (\<not> JSON opts \<longrightarrow> Default st' = PrettyHandler Stdout ho)"
  unfolding st'_def by (simp add: Default_Configure Let_def)

text \<open>\<^verbatim>\<open>Options{JSON: true}\<close> and \<^verbatim>\<open>Options{}\<close>.\<close>

theorem backend_selection_witness:
  fixes fmt :: "string \<Rightarrow> string \<Rightarrow> string"
  defines "fmt \<equiv> \<lambda>t layout. t @ '' as '' @ layout"
  shows "(\<exists>ho. Default (Configure ascii_ToLower fmt (zero_Options\<lparr>JSON := True\<rparr>) init_state) =
               JSONHandler Stderr ho) \<and>
         (\<exists>ho. Default (Configure ascii_ToLower fmt zero_Options init_state) =
               PrettyHandler Stdout ho)"
  using backend_selection [where ToLower = ascii_ToLower and Format = fmt and st = init_state
      and opts = "zero_Options\<lparr>JSON := True\<rparr>"]
    backend_selection [where ToLower = ascii_ToLower and Format = fmt and st = init_state
      and opts = zero_Options]
  by (auto simp: zero_Options_def)

section \<open>Configuring twice\<close>

text \<open>
  Claim C9. After \<^verbatim>\<open>Configure(o1)\<close> and then \<^verbatim>\<open>Configure(o2)\<close> the variable
  \<^verbatim>\<open>DefaultOptions\<close> and slog's default logger are what \<^verbatim>\<open>Configure(o2)\<close> alone leaves:
  nothing of \<open>o1\<close> is merged in. The map objects are untouched. The first call
  has lower-cased the cells of \<open>o1\<close>'s \<^verbatim>\<open>SkipHeaders\<close> window in the store, so what a
  window of \<open>o2\<close> shows is also the same in both runs whenever that window shares
  no cell with it.
\<close>

theorem Configure_last_writer_wins:
  fixes st :: "'t state" and ToLower Format o1 o2
  defines "s12 \<equiv> Configure ToLower Format o2 (Configure ToLower Format o1 st)"
    and "s2 \<equiv> Configure ToLower Format o2 st"
  shows "DefaultOptions s12 = DefaultOptions s2 \<and> Default s12 = Default s2 \<and>
    maps s12 = maps s2 \<and>
    (slices_disjoint (SkipHeaders o1) (SkipHeaders o2) \<longrightarrow>
       deref (arrays s12) (SkipHeaders (DefaultOptions s12)) =
       deref (arrays s2) (SkipHeaders (DefaultOptions s2))) \<and>
    (slices_disjoint (SkipHeaders o1) (QuietDownRoutes o2) \<longrightarrow>
       deref (arrays s12) (QuietDownRoutes (DefaultOptions s12)) =
       deref (arrays s2) (QuietDownRoutes (DefaultOptions s2)))"
proof -
  have opts: "DefaultOptions s12 = DefaultOptions s2"
    unfolding s12_def s2_def by (rule DefaultOptions_Configure_state)
  have logger: "Default s12 = Default s2"
    unfolding s12_def s2_def
    by (rule Default_Configure_state)
  have maps: "maps s12 = maps s2"
    unfolding s12_def s2_def by (simp add: maps_Configure)
  have content: "deref (arrays s12) r = deref (arrays s2) r"
    if "slices_disjoint (SkipHeaders o1) r" for r
    unfolding s12_def s2_def arrays_Configure
    by (rule deref_downcase_from_cong) (rule deref_downcase_from_disjoint [OF that])
  from opts logger maps content show ?thesis
    by (simp add: s2_def DefaultOptions_Configure_fields)
qed

text \<open>
  \<open>o1\<close> asks for \<^verbatim>\<open>severity\<close>, JSON and one skipped header, \<open>o2\<close> for the debug level
  and one quiet route in another array. After both calls the level field is
  \<^verbatim>\<open>level\<close> again, JSON is off, no header is skipped and the route reads as before.
\<close>

theorem Configure_last_writer_wins_witness:
  fixes st :: "string state" and fmt :: "string \<Rightarrow> string \<Rightarrow> string"
  defines "fmt \<equiv> \<lambda>t layout. t @ '' as '' @ layout"
    and "st \<equiv> init_state\<lparr>arrays := (\<lambda>_. [])(1 := [''Authorization''], 2 := [''/Health''])\<rparr>"
  defines "o1 \<equiv> zero_Options\<lparr>LevelFieldName := ''severity'', JSON := True,
                              SkipHeaders := \<lparr>sarr = 1, soff = 0, slen = 1\<rparr>\<rparr>"
    and "o2 \<equiv> zero_Options\<lparr>LogLevel := ''debug'',
                              QuietDownRoutes := \<lparr>sarr = 2, soff = 0, slen = 1\<rparr>\<rparr>"
  defines "s12 \<equiv> Configure ascii_ToLower fmt o2 (Configure ascii_ToLower fmt o1 st)"
    and "s2 \<equiv> Configure ascii_ToLower fmt o2 st"
  shows "DefaultOptions s12 = DefaultOptions s2 \<and> Default s12 = Default s2 \<and>
         LevelFieldName (DefaultOptions s12) = ''level'' \<and> JSON (DefaultOptions s12) = False \<and>
         SkipHeaders (DefaultOptions s12) = nil_slice \<and>
         deref (arrays s12) (SkipHeaders (DefaultOptions s12)) = [] \<and>
         deref (arrays s12) (QuietDownRoutes (DefaultOptions s12)) = [''/Health'']"
proof -
  have d1: "slices_disjoint (SkipHeaders o1) (SkipHeaders o2)"
    and d2: "slices_disjoint (SkipHeaders o1) (QuietDownRoutes o2)"
    by (simp_all add: o1_def o2_def zero_Options_def nil_slice_def slices_disjoint_def)
  from Configure_last_writer_wins [where ToLower = ascii_ToLower and Format = fmt and st = st
      and ?o1.0 = o1 and ?o2.0 = o2] d1 d2
  have same: "DefaultOptions s12 = DefaultOptions s2" "Default s12 = Default s2"
    and skip: "deref (arrays s12) (SkipHeaders (DefaultOptions s12)) =
      deref (arrays s2) (SkipHeaders (DefaultOptions s2))"
    and routes: "deref (arrays s12) (QuietDownRoutes (DefaultOptions s12)) =
      deref (arrays s2) (QuietDownRoutes (DefaultOptions s2))"
    unfolding s12_def s2_def by blast+
  have alone: "LevelFieldName (DefaultOptions s2) = ''level''" "JSON (DefaultOptions s2) = False"
      "SkipHeaders (DefaultOptions s2) = nil_slice"
      "deref (arrays s2) (SkipHeaders (DefaultOptions s2)) = []"
      "deref (arrays s2) (QuietDownRoutes (DefaultOptions s2)) = [''/Health'']"
    unfolding s2_def o2_def st_def
    by (simp_all add: DefaultOptions_Configure_fields arrays_Configure zero_Options_def
        nil_slice_def deref_def downcase_from_done)
  from same skip routes alone show ?thesis by simp
qed

section \<open>The fields Configure does not normalise\<close>

text \<open>
  Claim C10 says that for every options value the published \<^verbatim>\<open>QuietDownRoutes\<close> are
  exactly as given. That fails when the caller passes one slice as both
  \<^verbatim>\<open>SkipHeaders\<close> and \<^verbatim>\<open>QuietDownRoutes\<close>: the loop over \<^verbatim>\<open>SkipHeaders\<close> writes into the
  array the routes share, and the route given as \<^verbatim>\<open>/Health\<close> is published as
  \<^verbatim>\<open>/health\<close>.
\<close>

theorem Configure_frame_counterexample:
  "deref (arrays (Configure ascii_ToLower (\<lambda>t layout. t @ '' as '' @ layout)
       (zero_Options\<lparr>SkipHeaders := \<lparr>sarr = 2, soff = 0, slen = 1\<rparr>,
                      QuietDownRoutes := \<lparr>sarr = 2, soff = 0, slen = 1\<rparr>\<rparr>)
       (init_state\<lparr>arrays := (\<lambda>_. [])(2 := [''/Health''])\<rparr>)))
     (QuietDownRoutes (DefaultOptions (Configure ascii_ToLower (\<lambda>t layout. t @ '' as '' @ layout)
       (zero_Options\<lparr>SkipHeaders := \<lparr>sarr = 2, soff = 0, slen = 1\<rparr>,
                      QuietDownRoutes := \<lparr>sarr = 2, soff = 0, slen = 1\<rparr>\<rparr>)
       (init_state\<lparr>arrays := (\<lambda>_. [])(2 := [''/Health''])\<rparr>)))) \<noteq>
   deref (arrays (init_state\<lparr>arrays := (\<lambda>_. [])(2 := [''/Health''])\<rparr>))
     (QuietDownRoutes (zero_Options\<lparr>SkipHeaders := \<lparr>sarr = 2, soff = 0, slen = 1\<rparr>,
                      QuietDownRoutes := \<lparr>sarr = 2, soff = 0, slen = 1\<rparr>\<rparr>))"
  by (simp add: DefaultOptions_Configure_fields arrays_Configure deref_def
      downcase_from.simps [of _ _ 0] downcase_from.simps [of _ _ "Suc 0"] ascii_ToLower_examples)

text \<open>
  Claim C10 as amended. The published options are the given options with four
  fields set by the defaulting rules and every other field as given: \<^verbatim>\<open>LevelFieldName\<close>,
  \<^verbatim>\<open>TimeFieldFormat\<close> and \<^verbatim>\<open>TimeFieldName\<close> take their default when empty and only then,
  \<^verbatim>\<open>QuietDownPeriod\<close> becomes five minutes when there is a route and the period is 0 and
  only then. So \<^verbatim>\<open>LogLevel\<close>, \<^verbatim>\<open>JSON\<close>, \<^verbatim>\<open>Concise\<close>, \<^verbatim>\<open>Tags\<close>, \<^verbatim>\<open>SourceFieldName\<close> and the
  slices \<^verbatim>\<open>QuietDownRoutes\<close> and \<^verbatim>\<open>SkipHeaders\<close> (array, offset and length) are published
  as given, and the map objects are left alone. In the store, the \<^verbatim>\<open>SkipHeaders\<close>
  slice shows the lower-casing of what it showed, and the \<^verbatim>\<open>QuietDownRoutes\<close> slice shows
  the strings it showed before whenever it shares no array cell with \<^verbatim>\<open>SkipHeaders\<close>.
\<close>

theorem Configure_frame:
  fixes st :: "'t state" and ToLower Format opts
  defines "st' \<equiv> Configure ToLower Format opts st"
  shows "DefaultOptions st' =
           opts\<lparr>LevelFieldName :=
                   (if LevelFieldName opts = [] then ''level'' else LevelFieldName opts),
                 TimeFieldFormat :=
                   (if TimeFieldFormat opts = [] then RFC3339Nano else TimeFieldFormat opts),
                 TimeFieldName :=
                   (if TimeFieldName opts = [] then ''timestamp'' else TimeFieldName opts),
                 QuietDownPeriod :=
                   (if 0 < slen (QuietDownRoutes opts) \<and> QuietDownPeriod opts = 0
                    then 5 * Minute else QuietDownPeriod opts)\<rparr> \<and>
         LogLevel (DefaultOptions st') = LogLevel opts \<and>
         JSON (DefaultOptions st') = JSON opts \<and>
         Concise (DefaultOptions st') = Concise opts \<and>
         Tags (DefaultOptions st') = Tags opts \<and>
         QuietDownRoutes (DefaultOptions st') = QuietDownRoutes opts \<and>
         SourceFieldName (DefaultOptions st') = SourceFieldName opts \<and>
         SkipHeaders (DefaultOptions st') = SkipHeaders opts \<and>
         maps st' = maps st \<and>
         deref (arrays st') (SkipHeaders (DefaultOptions st')) =
           map ToLower (deref (arrays st) (SkipHeaders opts)) \<and>
         (slices_disjoint (SkipHeaders opts) (QuietDownRoutes opts) \<longrightarrow>
            deref (arrays st') (QuietDownRoutes (DefaultOptions st')) =
            deref (arrays st) (QuietDownRoutes opts))"
proof -
  have "DefaultOptions st' =
           opts\<lparr>LevelFieldName :=
                   (if LevelFieldName opts = [] then ''level'' else LevelFieldName opts),
                 TimeFieldFormat :=
                   (if TimeFieldFormat opts = [] then RFC3339Nano else TimeFieldFormat opts),
                 TimeFieldName :=
                   (if TimeFieldName opts = [] then ''timestamp'' else TimeFieldName opts),
                 QuietDownPeriod :=
                   (if 0 < slen (QuietDownRoutes opts) \<and> QuietDownPeriod opts = 0
                    then 5 * Minute else QuietDownPeriod opts)\<rparr>"
    unfolding st'_def by (simp add: Configure_def Let_def)
  moreover have "deref (arrays st') (SkipHeaders (DefaultOptions st')) =
      map ToLower (deref (arrays st) (SkipHeaders opts))"
    unfolding st'_def
    by (simp add: DefaultOptions_Configure_fields arrays_Configure deref_downcase_from)
  moreover have "deref (arrays st') (QuietDownRoutes (DefaultOptions st')) =
      deref (arrays st) (QuietDownRoutes opts)"
    if "slices_disjoint (SkipHeaders opts) (QuietDownRoutes opts)"
    unfolding st'_def using that
    by (simp add: DefaultOptions_Configure_fields arrays_Configure deref_downcase_from_disjoint)
  ultimately show ?thesis
    unfolding st'_def by (simp add: DefaultOptions_Configure_fields maps_Configure)
qed

text \<open>
  Options with an empty level name, one route in an array of its own and a period
  of one second: the level name gets its default, the period stays one second, every
  other field is published as given, the header is lower-cased and the route still
  reads \<^verbatim>\<open>/Health\<close>.
\<close>

theorem Configure_frame_witness:
  fixes st :: "string state" and fmt :: "string \<Rightarrow> string \<Rightarrow> string"
  defines "fmt \<equiv> \<lambda>t layout. t @ '' as '' @ layout"
    and "st \<equiv> init_state\<lparr>arrays := (\<lambda>_. [])(1 := [''Authorization''], 2 := [''/Health''])\<rparr>"
  defines "opts \<equiv> \<lparr>LogLevel = ''debug'', LevelFieldName = [], JSON = True,
      Concise = True, Tags = Some 3, SkipHeaders = \<lparr>sarr = 1, soff = 0, slen = 1\<rparr>,
      QuietDownRoutes = \<lparr>sarr = 2, soff = 0, slen = 1\<rparr>, QuietDownPeriod = 1000000000,
      TimeFieldFormat = ''15:04'', TimeFieldName = ''ts'', SourceFieldName = ''caller''\<rparr>"
  defines "st' \<equiv> Configure ascii_ToLower fmt opts st"
  shows "DefaultOptions st' = opts\<lparr>LevelFieldName := ''level''\<rparr> \<and>
         QuietDownPeriod (DefaultOptions st') = 1000000000 \<and>
         deref (arrays st') (SkipHeaders (DefaultOptions st')) = [''authorization''] \<and>
         deref (arrays st') (QuietDownRoutes (DefaultOptions st')) = [''/Health'']"
proof -
  have d: "slices_disjoint (SkipHeaders opts) (QuietDownRoutes opts)"
    by (simp add: opts_def slices_disjoint_def)
  from Configure_frame [where ToLower = ascii_ToLower and Format = fmt and st = st
      and opts = opts] d
  have published: "DefaultOptions st' =
           opts\<lparr>LevelFieldName :=
                   (if LevelFieldName opts = [] then ''level'' else LevelFieldName opts),
                 TimeFieldFormat :=
                   (if TimeFieldFormat opts = [] then RFC3339Nano else TimeFieldFormat opts),
                 TimeFieldName :=
                   (if TimeFieldName opts = [] then ''timestamp'' else TimeFieldName opts),
                 QuietDownPeriod :=
                   (if 0 < slen (QuietDownRoutes opts) \<and> QuietDownPeriod opts = 0
                    then 5 * Minute else QuietDownPeriod opts)\<rparr>"
    and headers: "deref (arrays st') (SkipHeaders (DefaultOptions st')) =
      map ascii_ToLower (deref (arrays st) (SkipHeaders opts))"
    and routes: "deref (arrays st') (QuietDownRoutes (DefaultOptions st')) =
      deref (arrays st) (QuietDownRoutes opts)"
    unfolding st'_def by blast+
  from published have p: "DefaultOptions st' = opts\<lparr>LevelFieldName := ''level''\<rparr>"
    by (simp add: opts_def)
  have "deref (arrays st) (SkipHeaders opts) = [''Authorization'']"
    and "deref (arrays st) (QuietDownRoutes opts) = [''/Health'']"
    by (simp_all add: st_def opts_def deref_def)
  with headers routes p show ?thesis
    by (simp add: opts_def ascii_ToLower_examples)
qed

end
